theory Spec2Isabelle
  imports Main "HOL-Library.Word"
begin

unbundle bit_operations_syntax

section \<open>Go values\<close>

text \<open>
  A Go \<open>string\<close> and a \<open>[]byte\<close> are both byte sequences: \<open>string\<close> is a list of
  8-bit characters, \<open>[]byte\<close> a list of 8-bit words, and \<open>[]byte(s)\<close> converts one into
  the other. An \<open>error\<close> built by \<open>errors.New\<close> is modelled by its message. A
  \<open>*big.Int\<close> is an \<open>int\<close>.
\<close>

type_synonym byte = "8 word"
type_synonym error = string

definition bytes_of :: "string \<Rightarrow> byte list" where
  "bytes_of s = map of_char s"

section \<open>Standard library: encoding/hex and math/big\<close>

text \<open>
  \<open>hex.EncodeToString\<close> writes two lower-case digits for every byte:
  \<open>hextable[v>>4]\<close> and \<open>hextable[v&0x0f]\<close>.
\<close>

definition hextable :: string where
  "hextable = ''0123456789abcdef''"

definition EncodeToString :: "byte list \<Rightarrow> string" where
  "EncodeToString src =
     concat (map (\<lambda>v. [hextable ! unat (drop_bit 4 v), hextable ! unat (v AND 0x0f)]) src)"

text \<open>
  \<open>(*big.Int).Bytes\<close> is the absolute value as a big-endian byte slice without leading
  zero bytes; the slice of 0 is empty. \<open>(*big.Int).SetBytes\<close> reads a big-endian slice.
\<close>

fun nat_bytes :: "nat \<Rightarrow> byte list" where
  "nat_bytes n = (if n = 0 then [] else nat_bytes (n div 256) @ [of_nat (n mod 256)])"

declare nat_bytes.simps [simp del]

definition Int_Bytes :: "int \<Rightarrow> byte list" where
  "Int_Bytes x = nat_bytes (nat \<bar>x\<bar>)"

definition SetBytes :: "byte list \<Rightarrow> int" where
  "SetBytes buf = int (foldl (\<lambda>z b. z * 256 + unat b) 0 buf)"

text \<open>
  \<open>(*big.Int).SetString(s, base)\<close> for a base between 2 and 36: \<open>scanSign\<close> reads one
  byte (no byte is an error) and keeps it unless it is a sign; the digit loop of
  \<open>nat.scan\<close> takes \<open>0-9\<close>, \<open>a-z\<close> and \<open>A-Z\<close> (letters of either case count from 10),
  stops at the first byte whose value is not below the base and fails when it has read
  no digit; \<open>setFromScanner\<close> fails when a byte is left over. A prefix such as \<open>0x\<close> and
  the separator \<open>_\<close> are read for base 0 only.
\<close>

definition digit_value :: "char \<Rightarrow> nat" where
  "digit_value ch =
     (let c = (of_char ch :: nat) in
      if of_char CHR ''0'' \<le> c \<and> c \<le> of_char CHR ''9'' then c - of_char CHR ''0''
      else if of_char CHR ''a'' \<le> c \<and> c \<le> of_char CHR ''z'' then c - of_char CHR ''a'' + 10
      else if of_char CHR ''A'' \<le> c \<and> c \<le> of_char CHR ''Z'' then c - of_char CHR ''A'' + 10
      else 63)"

fun nat_scan :: "nat \<Rightarrow> nat \<Rightarrow> nat \<Rightarrow> string \<Rightarrow> nat \<times> nat \<times> string" where
  "nat_scan b z count [] = (z, count, [])"
| "nat_scan b z count (ch # rest) =
     (if b \<le> digit_value ch then (z, count, ch # rest)
      else nat_scan b (z * b + digit_value ch) (count + 1) rest)"

definition scanSign :: "string \<Rightarrow> (bool \<times> string) option" where
  "scanSign s =
     (case s of
        [] \<Rightarrow> None
      | ch # rest \<Rightarrow>
          if ch = CHR ''-'' then Some (True, rest)
          else if ch = CHR ''+'' then Some (False, rest)
          else Some (False, ch # rest))"

definition SetString :: "string \<Rightarrow> nat \<Rightarrow> int option" where
  "SetString s base =
     (case scanSign s of
        None \<Rightarrow> None
      | Some (neg, rest) \<Rightarrow>
          (case nat_scan base 0 0 rest of
             (z, count, remaining) \<Rightarrow>
               if count = 0 then None
               else if remaining \<noteq> [] then None
               else Some (if neg then - int z else int z)))"

section \<open>Data model\<close>

text \<open>\<open>ecdsa.PublicKey\<close> and \<open>ecdsa.PrivateKey\<close> (which embeds the public key).\<close>

datatype Curve = P256

record ecdsa_PublicKey =
  Curve :: Curve
  X :: int
  Y :: int

record ecdsa_PrivateKey = ecdsa_PublicKey +
  D :: int

text \<open>
  Modelled from the spec: the struct \<open>oplog.Clock\<close>, whose declaration is not among the
  sources. It has the two fields that the spec lists and that the schema written in
  \<open>Encode\<close> names \<open>id\<close> and \<open>time\<close>.
\<close>

record Clock =
  clock_id :: string
  clock_time :: int

text \<open>\<open>oplog.Entry\<close>, and \<open>oplog.EncodedEntry\<close>, which embeds the entry.\<close>

record Entry =
  ID :: string
  Payload :: string
  Next :: "string list"
  Refs :: "string list"
  Clock :: Clock
  V :: int
  Key :: string
  Identity :: string
  Signature :: string

text \<open>\<open>cid.NewCidV1(codec, mhash)\<close> pairs a codec tag with a multihash.\<close>

datatype Cid = NewCidV1 nat "byte list"

definition DagCBOR :: nat where
  "DagCBOR = 0x71"

record EncodedEntry = Entry +
  Bytes :: "byte list"
  CID :: Cid

text \<open>
  Modelled from the spec: the struct \<open>identitytypes.Identity\<close>, whose declaration is not
  among the sources. It has the fields the spec lists, with the types that
  \<open>PublicKeyProvider\<close> and the \<open>Identities\<close> manager use them at: the public key is a
  hex string, the private key a pointer (\<open>None\<close> is \<open>nil\<close>), the self-signatures a
  \<open>map[string]string\<close>.
\<close>

record identitytypes_Identity =
  it_ID :: string
  it_PublicKey :: string
  it_PrivateKey :: "ecdsa_PrivateKey option"
  it_Signatures :: "string \<rightharpoonup> string"
  it_Type :: string
  it_Hash :: string
  it_Bytes :: "byte list"

text \<open>
  Modelled from the spec: the struct \<open>identities.Identity\<close>, whose declaration is not
  among the sources either. It has the fields that \<open>PublicKeyIdentityProvider\<close> and
  the oplog read: both keys are struct values, the self-signatures a struct of two
  strings, and the field \<open>Identity\<close> holds the identity's hash.
\<close>

record identities_Identity =
  ids_ID :: string
  ids_PublicKey :: ecdsa_PublicKey
  ids_PrivateKey :: ecdsa_PrivateKey
  ids_Signatures_ID :: string
  ids_Signatures_PublicKey :: string
  ids_Type :: string
  ids_Identity :: string

text \<open>
  A call that panics does not return: \<open>Panic err\<close> is \<open>panic(err)\<close>, \<open>Return v\<close> a
  normal return.
\<close>

datatype 'a result = Return 'a | Panic error

section \<open>What the code calls outside the files modelled here\<close>

text \<open>
  The functions of the Go standard library's crypto packages, of go-ipld-prime and of
  go-multihash that the code calls, and the methods and functions of this repository's
  packages \<open>identitytypes\<close> and \<open>identities\<close> whose bodies are not part of the sources
  at hand, are parameters of the model. \<open>'r\<close> is the state of \<open>rand.Reader\<close>: a call
  that reads it returns the state it leaves.

  \<^item> \<open>sha256_Sum256\<close>: \<open>sha256.Sum256(data)\<close>.
  \<^item> \<open>ecdsa_Sign\<close>: \<open>ecdsa.Sign(rand.Reader, priv, hash)\<close>, an error or \<open>(r, s)\<close>.
  \<^item> \<open>ecdsa_Verify\<close>: \<open>ecdsa.Verify(pub, hash, r, s)\<close>.
  \<^item> \<open>ScalarBaseMult\<close>: \<open>elliptic.P256().ScalarBaseMult(k)\<close>.
  \<^item> \<open>LoadSchemaBytes\<close>: the error, if any, of \<open>ipld.LoadSchemaBytes\<close> on the schema
    text written in \<open>Encode\<close>.
  \<^item> \<open>dagcbor_Encode\<close>: \<open>dagcbor.Encode\<close> of the representation of the entry wrapped
    with the schema type \<open>Entry\<close>.
  \<^item> \<open>mh_Sum\<close>: \<open>mh.Sum(buf, mh.SHA2_256, -1)\<close>.
  \<^item> \<open>IsIdentity\<close>, \<open>EncodeIdentity\<close>: the functions of package \<open>identitytypes\<close>.
  \<^item> \<open>identitytypes_Verify\<close>: the method \<open>Verify(signature, data)\<close> of
    \<open>identitytypes.Identity\<close>.
  \<^item> \<open>identities_Sign\<close>, \<open>PublicKeyHex\<close>: the methods \<open>Sign(data)\<close> and
    \<open>PublicKeyHex()\<close> of \<open>identities.Identity\<close>.
\<close>

record 'r env =
  sha256_Sum256 :: "byte list \<Rightarrow> byte list"
  ecdsa_Sign :: "'r \<Rightarrow> ecdsa_PrivateKey \<Rightarrow> byte list \<Rightarrow> (error + int \<times> int) \<times> 'r"
  ecdsa_Verify :: "ecdsa_PublicKey \<Rightarrow> byte list \<Rightarrow> int \<Rightarrow> int \<Rightarrow> bool"
  ScalarBaseMult :: "byte list \<Rightarrow> int \<times> int"
  LoadSchemaBytes :: "error option"
  dagcbor_Encode :: "Entry \<Rightarrow> error + byte list"
  mh_Sum :: "byte list \<Rightarrow> error + byte list"
  IsIdentity :: "identitytypes_Identity \<Rightarrow> bool"
  EncodeIdentity :: "identitytypes_Identity \<Rightarrow> error + string \<times> byte list"
  identitytypes_Verify :: "identitytypes_Identity \<Rightarrow> string \<Rightarrow> byte list \<Rightarrow> bool"
  identities_Sign :: "'r \<Rightarrow> identities_Identity \<Rightarrow> byte list \<Rightarrow> (error + string) \<times> 'r"
  PublicKeyHex :: "identities_Identity \<Rightarrow> string"

text \<open>
  Modelled from the spec: the provider interfaces, whose declarations are not among
  the sources, as records of the methods the code calls through them. \<open>Provider\<close> is
  what the \<open>Identities\<close> manager holds, \<open>IdentityProvider\<close> what
  \<open>provider_registry.GetIdentityProvider\<close> returns. A Go \<open>(bool, error)\<close> result is a
  pair whose second component is \<open>None\<close> for \<open>nil\<close>.
\<close>

record 'r Provider =
  Provider_Type :: string
  Provider_CreateIdentity :: "'r \<Rightarrow> string \<Rightarrow> (error + identitytypes_Identity) \<times> 'r"
  Provider_VerifyIdentity :: "identitytypes_Identity \<Rightarrow> bool \<times> error option"

record IdentityProvider =
  IdentityProvider_Type :: string
  IdentityProvider_VerifyIdentityWithEntry ::
    "identities_Identity \<Rightarrow> byte list \<Rightarrow> string \<Rightarrow> bool \<times> error option"

text \<open>
  Modelled from the spec: \<open>identities.RegisterProvider\<close> (the registries and their
  functions are not among the sources). A registry is a mapping from provider-type
  name to provider, and \<open>Register\<close> inserts the provider under its type.
\<close>

definition RegisterProvider :: "(string \<rightharpoonup> 'r Provider) \<Rightarrow> 'r Provider \<Rightarrow> (string \<rightharpoonup> 'r Provider)" where
  "RegisterProvider registry p = registry(Provider_Type p \<mapsto> p)"

text \<open>
  Modelled from the spec: \<open>identities.GetProvider\<close>, the provider registered under the
  type name or a not-found error.
\<close>

definition GetProvider :: "(string \<rightharpoonup> 'r Provider) \<Rightarrow> string \<Rightarrow> error + 'r Provider" where
  "GetProvider registry providerType =
     (case registry providerType of
        None \<Rightarrow> Inl ''provider not found''
      | Some p \<Rightarrow> Inr p)"

text \<open>
  Modelled from the spec: \<open>provider_registry.GetIdentityProvider\<close>, the provider
  registered under the type name or a not-found error.
\<close>

definition GetIdentityProvider :: "(string \<rightharpoonup> IdentityProvider) \<Rightarrow> string \<Rightarrow> error + IdentityProvider" where
  "GetIdentityProvider registry providerType =
     (case registry providerType of
        None \<Rightarrow> Inl ''provider not found''
      | Some p \<Rightarrow> Inr p)"

section \<open>Package providers: PublicKeyProvider\<close>

definition PublicKeyProvider_Type :: string where
  "PublicKeyProvider_Type = ''publickey''"

text \<open>
  \<open>createHardcodedKeyPair\<close>: the private scalar is read from a hex literal (the \<open>ok\<close>
  result of \<open>SetString\<close> is dropped), the public point is its multiple of the base
  point.
\<close>

definition createHardcodedKeyPair :: "'r env \<Rightarrow> ecdsa_PrivateKey" where
  "createHardcodedKeyPair E =
     (let d = (case SetString ''5e5d9e0a44685aee2282a44d2d3e9a1b'' 16 of
                 Some v \<Rightarrow> v
               | None \<Rightarrow> 0);
          (x, y) = ScalarBaseMult E (Int_Bytes d)
      in \<lparr>Curve = P256, X = x, Y = y, D = d\<rparr>)"

text \<open>\<open>signData\<close>: hash, sign, and write \<open>r\<close> and \<open>s\<close> in hex one after the other.\<close>

definition signData :: "'r env \<Rightarrow> 'r \<Rightarrow> ecdsa_PrivateKey \<Rightarrow> byte list \<Rightarrow> (error + string) \<times> 'r" where
  "signData E rnd privateKey data =
     (let hash = sha256_Sum256 E data in
      case ecdsa_Sign E rnd privateKey hash of
        (Inl err, rnd') \<Rightarrow> (Inl err, rnd')
      | (Inr (r, s), rnd') \<Rightarrow>
          (Inr (EncodeToString (Int_Bytes r) @ EncodeToString (Int_Bytes s)), rnd'))"

definition PublicKeyProvider_CreateIdentity ::
  "'r env \<Rightarrow> 'r \<Rightarrow> string \<Rightarrow> (error + identitytypes_Identity) \<times> 'r" where
  "PublicKeyProvider_CreateIdentity E rnd id' =
     (let privateKey = createHardcodedKeyPair E;
          publicKey = EncodeToString (Int_Bytes (X privateKey) @ Int_Bytes (Y privateKey))
      in
      case signData E rnd privateKey (bytes_of id') of
        (Inl err, rnd1) \<Rightarrow> (Inl err, rnd1)
      | (Inr idSignature, rnd1) \<Rightarrow>
          (case signData E rnd1 privateKey (bytes_of publicKey) of
             (Inl err, rnd2) \<Rightarrow> (Inl err, rnd2)
           | (Inr publicKeySignature, rnd2) \<Rightarrow>
               (let identity =
                      \<lparr>it_ID = id',
                       it_PublicKey = publicKey,
                       it_PrivateKey = Some privateKey,
                       it_Signatures =
                         [''id'' \<mapsto> idSignature, ''publicKey'' \<mapsto> publicKeySignature],
                       it_Type = PublicKeyProvider_Type,
                       it_Hash = [],
                       it_Bytes = []\<rparr>
                in
                case EncodeIdentity E identity of
                  Inl err \<Rightarrow> (Inl err, rnd2)
                | Inr (hash, bytes) \<Rightarrow>
                    (Inr (identity\<lparr>it_Hash := hash, it_Bytes := bytes\<rparr>), rnd2))))"

text \<open>\<open>Verify\<close> of the provider hands over to the identity's own \<open>Verify\<close>.\<close>

definition PublicKeyProvider_Verify ::
  "'r env \<Rightarrow> identitytypes_Identity \<Rightarrow> string \<Rightarrow> byte list \<Rightarrow> bool" where
  "PublicKeyProvider_Verify E identity signature data =
     identitytypes_Verify E identity signature data"

definition PublicKeyProvider_VerifyIdentity ::
  "'r env \<Rightarrow> identitytypes_Identity \<Rightarrow> bool \<times> error option" where
  "PublicKeyProvider_VerifyIdentity E identity =
     (if \<not> IsIdentity E identity then (False, Some ''identity is missing required fields'')
      else
        case it_Signatures identity ''id'' of
          None \<Rightarrow> (False, Some ''invalid or missing ID signature'')
        | Some idSignature \<Rightarrow>
            if \<not> PublicKeyProvider_Verify E identity idSignature (bytes_of (it_ID identity))
            then (False, Some ''invalid or missing ID signature'')
            else
              (case it_Signatures identity ''publicKey'' of
                 None \<Rightarrow> (False, Some ''invalid or missing public key signature'')
               | Some publicKeySignature \<Rightarrow>
                   if \<not> PublicKeyProvider_Verify E identity publicKeySignature
                          (bytes_of (it_PublicKey identity))
                   then (False, Some ''invalid or missing public key signature'')
                   else (True, None)))"

definition NewPublicKeyProvider :: "'r env \<Rightarrow> 'r Provider" where
  "NewPublicKeyProvider E =
     \<lparr>Provider_Type = PublicKeyProvider_Type,
      Provider_CreateIdentity = PublicKeyProvider_CreateIdentity E,
      Provider_VerifyIdentity = PublicKeyProvider_VerifyIdentity E\<rparr>"

section \<open>Package providers: PublicKeyIdentityProvider\<close>

definition PublicKeyIdentityProvider_Type :: string where
  "PublicKeyIdentityProvider_Type = ''publickey''"

definition PublicKeyIdentityProvider_SignIdentity ::
  "'r env \<Rightarrow> 'r \<Rightarrow> string \<Rightarrow> identities_Identity \<Rightarrow> (error + string) \<times> 'r" where
  "PublicKeyIdentityProvider_SignIdentity E rnd data identity =
     (let hash = sha256_Sum256 E (bytes_of data) in
      case ecdsa_Sign E rnd (ids_PrivateKey identity) hash of
        (Inl err, rnd') \<Rightarrow> (Inl err, rnd')
      | (Inr (r, s), rnd') \<Rightarrow>
          (Inr (EncodeToString (Int_Bytes r) @ EncodeToString (Int_Bytes s)), rnd'))"

text \<open>
  \<open>VerifyIdentityWithEntry\<close>: the signature string is cut in the middle
  (\<open>len(signature) / 2\<close>) and each half is read as a base-16 integer.
\<close>

definition PublicKeyIdentityProvider_VerifyIdentityWithEntry ::
  "'r env \<Rightarrow> identities_Identity \<Rightarrow> byte list \<Rightarrow> string \<Rightarrow> bool \<times> error option" where
  "PublicKeyIdentityProvider_VerifyIdentityWithEntry E identity data signature =
     (let hash = sha256_Sum256 E data;
          sigLen = length signature div 2
      in
      case SetString (take sigLen signature) 16 of
        None \<Rightarrow> (False, Some ''invalid signature format'')
      | Some r \<Rightarrow>
          (case SetString (drop sigLen signature) 16 of
             None \<Rightarrow> (False, Some ''invalid signature format'')
           | Some s \<Rightarrow> (ecdsa_Verify E (ids_PublicKey identity) hash r s, None)))"

text \<open>
  \<open>verifyECDSASignature\<close>, the helper of the same file: it takes a signature of
  exactly 64 bytes and cuts it at byte 32.
\<close>

definition verifyECDSASignature ::
  "'r env \<Rightarrow> ecdsa_PublicKey \<Rightarrow> byte list \<Rightarrow> byte list \<Rightarrow> bool \<times> error option" where
  "verifyECDSASignature E publicKey dataHash signature =
     (if length signature \<noteq> 64 then (False, Some ''invalid signature length'')
      else
        (let r = SetBytes (take 32 signature);
             s = SetBytes (drop 32 signature)
         in (ecdsa_Verify E publicKey dataHash r s, None)))"

definition NewPublicKeyIdentityProvider :: "'r env \<Rightarrow> IdentityProvider" where
  "NewPublicKeyIdentityProvider E =
     \<lparr>IdentityProvider_Type = PublicKeyIdentityProvider_Type,
      IdentityProvider_VerifyIdentityWithEntry =
        PublicKeyIdentityProvider_VerifyIdentityWithEntry E\<rparr>"

section \<open>Package identities: the Identities manager\<close>

record 'r Identities =
  storage :: "string \<rightharpoonup> identitytypes_Identity"
  provider :: "'r Provider"

definition NewIdentities :: "(string \<rightharpoonup> 'r Provider) \<Rightarrow> string \<Rightarrow> error + 'r Identities" where
  "NewIdentities registry providerType =
     (case GetProvider registry providerType of
        Inl err \<Rightarrow> Inl err
      | Inr p \<Rightarrow> Inr \<lparr>storage = Map.empty, provider = p\<rparr>)"

text \<open>\<open>VerifyIdentity\<close>: \<open>verified, _ := ids.provider.VerifyIdentity(identity)\<close>.\<close>

definition Identities_VerifyIdentity :: "'r Identities \<Rightarrow> identitytypes_Identity \<Rightarrow> bool" where
  "Identities_VerifyIdentity ids identity =
     (case Provider_VerifyIdentity (provider ids) identity of
        (verified, _) \<Rightarrow> verified)"

text \<open>\<open>init\<close> registers the public-key provider in the registry of the package.\<close>

definition init_registry :: "'r env \<Rightarrow> (string \<rightharpoonup> 'r Provider)" where
  "init_registry E = RegisterProvider Map.empty (NewPublicKeyProvider E)"

section \<open>Package oplog: entries\<close>

text \<open>
  \<open>Encode\<close> has three places that call \<open>panic(err)\<close>: after loading the schema, after
  the DAG-CBOR encoding and after hashing.
\<close>

definition Encode :: "'r env \<Rightarrow> Entry \<Rightarrow> EncodedEntry result" where
  "Encode E entry =
     (case LoadSchemaBytes E of
        Some err \<Rightarrow> Panic err
      | None \<Rightarrow>
          (case dagcbor_Encode E entry of
             Inl err \<Rightarrow> Panic err
           | Inr buf \<Rightarrow>
               (case mh_Sum E buf of
                  Inl err \<Rightarrow> Panic err
                | Inr hash \<Rightarrow>
                    Return (Entry.extend entry
                      \<lparr>Bytes = buf, CID = NewCidV1 DagCBOR hash\<rparr>))))"

text \<open>
  \<open>NewEntry\<close>: the entry is encoded with an empty signature, the bytes are signed, and
  the signature is stored in the field of the value that \<open>Encode\<close> returned.
\<close>

definition NewEntry ::
  "'r env \<Rightarrow> 'r \<Rightarrow> identities_Identity \<Rightarrow> string \<Rightarrow> string \<Rightarrow> Clock \<Rightarrow> EncodedEntry result \<times> 'r" where
  "NewEntry E rnd identity id' payload clock =
     (let entry =
            \<lparr>ID = id',
             Payload = payload,
             Next = [],
             Refs = [],
             Clock = clock,
             V = 2,
             Key = PublicKeyHex E identity,
             Identity = ids_Identity identity,
             Signature = []\<rparr>
      in
      case Encode E entry of
        Panic err \<Rightarrow> (Panic err, rnd)
      | Return encodedEntry \<Rightarrow>
          (case identities_Sign E rnd identity (Bytes encodedEntry) of
             (Inl err, rnd') \<Rightarrow> (Panic err, rnd')
           | (Inr signature, rnd') \<Rightarrow>
               (Return (encodedEntry\<lparr>Signature := signature\<rparr>), rnd')))"

definition VerifyEntrySignature ::
  "(string \<rightharpoonup> IdentityProvider) \<Rightarrow> identities_Identity \<Rightarrow> EncodedEntry \<Rightarrow> bool" where
  "VerifyEntrySignature registry identity entry =
     (case GetIdentityProvider registry (ids_Type identity) of
        Inl err \<Rightarrow> False
      | Inr provider' \<Rightarrow>
          (case IdentityProvider_VerifyIdentityWithEntry provider' identity
                  (Bytes entry) (Signature entry) of
             (valid, Some err) \<Rightarrow> False
           | (valid, None) \<Rightarrow> valid))"

section \<open>A small instance of the parameters\<close>

text \<open>
  To evaluate the model on concrete inputs the parameters need values. \<open>env0\<close> is a
  small, self-consistent instance with none of the cryptographic strength of the real
  libraries: a one-byte digest, a signature scheme over the integers modulo 251 whose
  signatures verify under the matching public key, a length-prefixed serialisation of
  the entry's fields, and a reader state that counts the calls.
\<close>

definition digest0 :: "byte list \<Rightarrow> byte list" where
  "digest0 data = [of_nat (foldl (\<lambda>h b. (h * 31 + unat b) mod 251) 7 data)]"

definition Sign0 :: "nat \<Rightarrow> ecdsa_PrivateKey \<Rightarrow> byte list \<Rightarrow> (error + int \<times> int) \<times> nat" where
  "Sign0 rnd priv hash =
     (if D priv = 0 then (Inl ''invalid private key'', rnd)
      else
        (let k = 16 + int (rnd mod 200);
             h = SetBytes hash
         in (Inr ((k * 3) mod 251, (k + h * D priv) mod 251), Suc rnd)))"

definition Verify0 :: "ecdsa_PublicKey \<Rightarrow> byte list \<Rightarrow> int \<Rightarrow> int \<Rightarrow> bool" where
  "Verify0 pub hash r s =
     (0 < r \<and> r < 251 \<and> 0 < s \<and> s < 251 \<and>
      (s * 3) mod 251 = (r + SetBytes hash * X pub) mod 251)"

definition ScalarBaseMult0 :: "byte list \<Rightarrow> int \<times> int" where
  "ScalarBaseMult0 k = ((SetBytes k * 3) mod 251, (SetBytes k * 5) mod 251)"

definition field0 :: "string \<Rightarrow> byte list" where
  "field0 s = of_nat (length s) # bytes_of s"

definition fields0 :: "string list \<Rightarrow> byte list" where
  "fields0 xs = of_nat (length xs) # concat (map field0 xs)"

definition dagcbor_Encode0 :: "Entry \<Rightarrow> error + byte list" where
  "dagcbor_Encode0 e =
     Inr (field0 (ID e) @ field0 (Payload e) @ fields0 (Next e) @ fields0 (Refs e) @
          field0 (clock_id (Clock e)) @ [of_int (clock_time (Clock e)), of_int (V e)] @
          field0 (Key e) @ field0 (Identity e) @ field0 (Signature e))"

definition mh_Sum0 :: "byte list \<Rightarrow> error + byte list" where
  "mh_Sum0 buf = Inr ([0x12, 0x01] @ digest0 buf)"

definition IsIdentity0 :: "identitytypes_Identity \<Rightarrow> bool" where
  "IsIdentity0 i =
     (it_ID i \<noteq> [] \<and> it_PublicKey i \<noteq> [] \<and> it_Signatures i ''id'' \<noteq> None \<and>
      it_Signatures i ''publicKey'' \<noteq> None \<and> it_Type i \<noteq> [] \<and> it_Hash i \<noteq> [])"

definition EncodeIdentity0 :: "identitytypes_Identity \<Rightarrow> error + string \<times> byte list" where
  "EncodeIdentity0 i =
     (let bytes = field0 (it_ID i) @ field0 (it_PublicKey i) @ field0 (it_Type i) @
                  field0 (case it_Signatures i ''id'' of None \<Rightarrow> [] | Some s \<Rightarrow> s) @
                  field0 (case it_Signatures i ''publicKey'' of None \<Rightarrow> [] | Some s \<Rightarrow> s)
      in Inr (EncodeToString (digest0 bytes), bytes))"

definition identitytypes_Verify0 :: "identitytypes_Identity \<Rightarrow> string \<Rightarrow> byte list \<Rightarrow> bool" where
  "identitytypes_Verify0 i signature data =
     (case it_PrivateKey i of
        None \<Rightarrow> False
      | Some priv \<Rightarrow>
          (case SetString (take (length signature div 2) signature) 16 of
             None \<Rightarrow> False
           | Some r \<Rightarrow>
               (case SetString (drop (length signature div 2) signature) 16 of
                  None \<Rightarrow> False
                | Some s \<Rightarrow>
                    Verify0 \<lparr>Curve = Curve priv, X = X priv, Y = Y priv\<rparr> (digest0 data) r s)))"

definition identities_Sign0 :: "nat \<Rightarrow> identities_Identity \<Rightarrow> byte list \<Rightarrow> (error + string) \<times> nat" where
  "identities_Sign0 rnd identity data =
     (case Sign0 rnd (ids_PrivateKey identity) (digest0 data) of
        (Inl err, rnd') \<Rightarrow> (Inl err, rnd')
      | (Inr (r, s), rnd') \<Rightarrow>
          (Inr (EncodeToString (Int_Bytes r) @ EncodeToString (Int_Bytes s)), rnd'))"

definition PublicKeyHex0 :: "identities_Identity \<Rightarrow> string" where
  "PublicKeyHex0 identity =
     EncodeToString (Int_Bytes (X (ids_PublicKey identity)) @ Int_Bytes (Y (ids_PublicKey identity)))"

definition env0 :: "nat env" where
  "env0 =
     \<lparr>sha256_Sum256 = digest0,
      ecdsa_Sign = Sign0,
      ecdsa_Verify = Verify0,
      ScalarBaseMult = ScalarBaseMult0,
      LoadSchemaBytes = None,
      dagcbor_Encode = dagcbor_Encode0,
      mh_Sum = mh_Sum0,
      IsIdentity = IsIdentity0,
      EncodeIdentity = EncodeIdentity0,
      identitytypes_Verify = identitytypes_Verify0,
      identities_Sign = identities_Sign0,
      PublicKeyHex = PublicKeyHex0\<rparr>"

text \<open>
  An identity \<open>alice\<close> with private scalar 20 (public point \<open>(60, 100)\<close> in \<open>env0\<close>),
  the same identity as a peer holds it, with a zero private key, a clock, and the
  registry holding the public-key identity provider.
\<close>

definition alice0 :: identities_Identity where
  "alice0 =
     \<lparr>ids_ID = ''alice'',
      ids_PublicKey = \<lparr>Curve = P256, X = 60, Y = 100\<rparr>,
      ids_PrivateKey = \<lparr>Curve = P256, X = 60, Y = 100, D = 20\<rparr>,
      ids_Signatures_ID = [],
      ids_Signatures_PublicKey = [],
      ids_Type = ''publickey'',
      ids_Identity = ''zdpuAlice''\<rparr>"

definition alice0_public :: identities_Identity where
  "alice0_public = alice0\<lparr>ids_PrivateKey := \<lparr>Curve = P256, X = 0, Y = 0, D = 0\<rparr>\<rparr>"

definition clock0 :: Clock where
  "clock0 = \<lparr>clock_id = ''alice'', clock_time = 1\<rparr>"

definition registry0 :: "string \<rightharpoonup> IdentityProvider" where
  "registry0 = [''publickey'' \<mapsto> NewPublicKeyIdentityProvider env0]"

text \<open>
  The entry that \<open>NewEntry\<close> builds in \<open>env0\<close> for \<open>alice0\<close>, id \<open>entry1\<close>, payload
  \<open>hello\<close> and \<open>clock0\<close> when the reader is in state 0 (lemma \<open>NewEntry_entry0\<close>).
\<close>

definition entry0 :: EncodedEntry where
  "entry0 =
     \<lparr>ID = ''entry1'', Payload = ''hello'', Next = [], Refs = [],
      Clock = \<lparr>clock_id = ''alice'', clock_time = 1\<rparr>, V = 2,
      Key = ''3c64'', Identity = ''zdpuAlice'', Signature = ''30a4'',
      Bytes =
        [6, 101, 110, 116, 114, 121, 49, 5, 104, 101, 108, 108, 111, 0,
         0, 5, 97, 108, 105, 99, 101, 1, 2, 4, 51, 99, 54, 52, 9, 122,
         100, 112, 117, 65, 108, 105, 99, 101, 0],
      CID = NewCidV1 113 [18, 1, 158]\<rparr>"

text \<open>
  The identities that \<open>CreateIdentity\<close> of the public-key provider builds in \<open>env0\<close>
  for \<open>alice\<close> with the reader in state 0 and for \<open>bob\<close> with the reader in state 7
  (lemmas \<open>CreateIdentity_alice\<close>, \<open>CreateIdentity_bob\<close>), and the zero value
  \<open>&Identity{}\<close>.
\<close>

definition created_alice0 :: identitytypes_Identity where
  "created_alice0 =
     \<lparr>it_ID = ''alice'', it_PublicKey = ''5ff2'',
      it_PrivateKey =
        Some \<lparr>Curve = P256, X = 95, Y = 242, D = 0x5e5d9e0a44685aee2282a44d2d3e9a1b\<rparr>,
      it_Signatures = [''id'' \<mapsto> ''3027'', ''publicKey'' \<mapsto> ''334f''],
      it_Type = ''publickey'', it_Hash = ''79'',
      it_Bytes =
        [5, 97, 108, 105, 99, 101, 4, 53, 102, 102, 50, 9, 112, 117,
         98, 108, 105, 99, 107, 101, 121, 4, 51, 48, 50, 55, 4, 51,
         51, 52, 102]\<rparr>"

definition created_bob0 :: identitytypes_Identity where
  "created_bob0 =
     \<lparr>it_ID = ''bob'', it_PublicKey = ''5ff2'',
      it_PrivateKey =
        Some \<lparr>Curve = P256, X = 95, Y = 242, D = 0x5e5d9e0a44685aee2282a44d2d3e9a1b\<rparr>,
      it_Signatures = [''id'' \<mapsto> ''450c'', ''publicKey'' \<mapsto> ''4856''],
      it_Type = ''publickey'', it_Hash = ''ac'',
      it_Bytes =
        [3, 98, 111, 98, 4, 53, 102, 102, 50, 9, 112, 117, 98, 108,
         105, 99, 107, 101, 121, 4, 52, 53, 48, 99, 4, 52, 56, 53,
         54]\<rparr>"

definition zero_Identity :: identitytypes_Identity where
  "zero_Identity =
     \<lparr>it_ID = [], it_PublicKey = [], it_PrivateKey = None, it_Signatures = Map.empty,
      it_Type = [], it_Hash = [], it_Bytes = []\<rparr>"

text \<open>
  A provider of another type whose \<open>VerifyIdentity\<close> returns true together with an
  error, as a value of the \<open>Provider\<close> interface that \<open>RegisterProvider\<close> accepts.
\<close>

definition custom_Provider0 :: "nat Provider" where
  "custom_Provider0 =
     \<lparr>Provider_Type = ''custom'',
      Provider_CreateIdentity = (\<lambda>rnd id'. (Inl ''not supported'', rnd)),
      Provider_VerifyIdentity = (\<lambda>identity. (True, Some ''revocation list not reachable''))\<rparr>"

text \<open>
  A signature pair whose \<open>r\<close> fills 32 bytes and whose \<open>s\<close> fills 31, and the string
  that \<open>signData\<close> and \<open>SignIdentity\<close> write for it: 64 digits of \<open>r\<close>, then 62 of \<open>s\<close>.
\<close>

definition r_full :: int where
  "r_full = 0xa15d9e0a44685aee2282a44d2d3e9a1b5e5d9e0a44685aee2282a44d2d3e9a1b"

definition s_short :: int where
  "s_short = 0x5d9e0a44685aee2282a44d2d3e9a1b5e5d9e0a44685aee2282a44d2d3e9a1b"

definition sig_short :: string where
  "sig_short =
     ''a15d9e0a44685aee2282a44d2d3e9a1b5e5d9e0a44685aee2282a44d2d3e9a1b'' @
     ''5d9e0a44685aee2282a44d2d3e9a1b5e5d9e0a44685aee2282a44d2d3e9a1b''"

section \<open>Notions used to state the properties\<close>

text \<open>
  A signature string is well formed when it is made of hexadecimal digits and has at
  least one digit for each of its two halves; its halves, read as hexadecimal numbers,
  are the pair \<open>(r, s)\<close> it stands for.
\<close>

definition hex_digit :: "char \<Rightarrow> bool" where
  "hex_digit ch \<longleftrightarrow> ch \<in> set ''0123456789abcdefABCDEF''"

definition hex_value :: "string \<Rightarrow> nat" where
  "hex_value s = foldl (\<lambda>z ch. z * 16 + digit_value ch) 0 s"

definition wellformed_signature :: "string \<Rightarrow> bool" where
  "wellformed_signature signature \<longleftrightarrow> 2 \<le> length signature \<and> list_all hex_digit signature"

definition signature_r :: "string \<Rightarrow> int" where
  "signature_r signature = int (hex_value (take (length signature div 2) signature))"

definition signature_s :: "string \<Rightarrow> int" where
  "signature_s signature = int (hex_value (drop (length signature div 2) signature))"

section \<open>Evaluation\<close>

lemma nat_bytes_0 [simp]: "nat_bytes 0 = []"
  by (simp add: nat_bytes.simps)

lemma nat_bytes_numeral [simp]:
  "nat_bytes (numeral k) = nat_bytes (numeral k div 256) @ [of_nat (numeral k mod 256)]"
  by (subst nat_bytes.simps) simp

lemma nat_bytes_1 [simp]: "nat_bytes (Suc 0) = [1]"
  by (subst nat_bytes.simps) simp

lemma env0_simps [simp]:
  "sha256_Sum256 env0 = digest0"
  "ecdsa_Sign env0 = Sign0"
  "ecdsa_Verify env0 = Verify0"
  "ScalarBaseMult env0 = ScalarBaseMult0"
  "LoadSchemaBytes env0 = None"
  "dagcbor_Encode env0 = dagcbor_Encode0"
  "mh_Sum env0 = mh_Sum0"
  "IsIdentity env0 = IsIdentity0"
  "EncodeIdentity env0 = EncodeIdentity0"
  "identitytypes_Verify env0 = identitytypes_Verify0"
  "identities_Sign env0 = identities_Sign0"
  "PublicKeyHex env0 = PublicKeyHex0"
  by (simp_all add: env0_def)

lemmas go_defs = bytes_of_def hextable_def EncodeToString_def Int_Bytes_def SetBytes_def
  digit_value_def scanSign_def SetString_def DagCBOR_def Let_def

lemmas env0_defs = digest0_def Sign0_def Verify0_def ScalarBaseMult0_def
  field0_def fields0_def dagcbor_Encode0_def mh_Sum0_def IsIdentity0_def EncodeIdentity0_def
  identitytypes_Verify0_def identities_Sign0_def PublicKeyHex0_def alice0_def alice0_public_def
  clock0_def



lemma hardcoded_scalar:
  "SetString ''5e5d9e0a44685aee2282a44d2d3e9a1b'' 16 = Some 0x5e5d9e0a44685aee2282a44d2d3e9a1b"
  by (simp add: go_defs)

lemma sig_short_encoding:
  "EncodeToString (Int_Bytes r_full) @ EncodeToString (Int_Bytes s_short) = sig_short"
  by (simp add: r_full_def s_short_def sig_short_def go_defs)

lemma sig_short_length: "length sig_short = 126"
  by (simp add: sig_short_def)

lemma sig_short_halves:
  "SetString (take 63 sig_short) 16 = Some (r_full div 16)"
  "SetString (drop 63 sig_short) 16 = Some (11 * 16 ^ 62 + s_short)"
  by (simp_all add: r_full_def s_short_def sig_short_def go_defs)

section \<open>Reading hexadecimal strings\<close>

lemma hex_digit_value: "hex_digit ch \<Longrightarrow> digit_value ch < 16"
  by (auto simp: hex_digit_def digit_value_def)

lemma hex_digit_no_sign: "hex_digit ch \<Longrightarrow> ch \<noteq> CHR ''-'' \<and> ch \<noteq> CHR ''+''"
  by (auto simp: hex_digit_def)

lemma nat_scan_hex:
  "list_all hex_digit s \<Longrightarrow>
     nat_scan 16 z c s = (foldl (\<lambda>z ch. z * 16 + digit_value ch) z s, c + length s, [])"
proof (induction s arbitrary: z c)
  case Nil
  then show ?case by simp
next
  case (Cons ch s)
  then have "digit_value ch < 16" and "list_all hex_digit s"
    by (simp_all add: hex_digit_value)
  with Cons.IH [of "z * 16 + digit_value ch" "c + 1"] show ?case
    by simp
qed

lemma SetString_hex:
  assumes "s \<noteq> []" and "list_all hex_digit s"
  shows "SetString s 16 = Some (int (hex_value s))"
proof -
  from assms obtain ch rest where s: "s = ch # rest"
    by (cases s) auto
  with assms have "hex_digit ch" by simp
  then have "scanSign s = Some (False, s)"
    using hex_digit_no_sign [of ch] by (simp add: scanSign_def s)
  moreover have "nat_scan 16 0 0 s = (hex_value s, length s, [])"
    using nat_scan_hex [OF assms(2), of 0 0] by (simp add: hex_value_def)
  ultimately show ?thesis
    using assms(1) by (simp add: SetString_def)
qed

lemma wellformed_halves:
  assumes "wellformed_signature signature"
  shows "SetString (take (length signature div 2) signature) 16 = Some (signature_r signature)"
    and "SetString (drop (length signature div 2) signature) 16 = Some (signature_s signature)"
proof -
  let ?n = "length signature div 2"
  from assms have len: "2 \<le> length signature" and hex: "list_all hex_digit signature"
    by (simp_all add: wellformed_signature_def)
  from len have "take ?n signature \<noteq> []" and "drop ?n signature \<noteq> []"
    by auto
  moreover from hex have "list_all hex_digit (take ?n signature)"
    and "list_all hex_digit (drop ?n signature)"
    by (auto simp: list_all_iff dest: in_set_takeD in_set_dropD)
  ultimately show "SetString (take ?n signature) 16 = Some (signature_r signature)"
    and "SetString (drop ?n signature) 16 = Some (signature_s signature)"
    by (simp_all add: SetString_hex signature_r_def signature_s_def)
qed

lemma hextable_digit:
  assumes "n < 16"
  shows "hex_digit (hextable ! n) \<and> digit_value (hextable ! n) = n"
proof -
  from assms have "n = 0 \<or> n = 1 \<or> n = 2 \<or> n = 3 \<or> n = 4 \<or> n = 5 \<or> n = 6 \<or> n = 7 \<or>
      n = 8 \<or> n = 9 \<or> n = 10 \<or> n = 11 \<or> n = 12 \<or> n = 13 \<or> n = 14 \<or> n = 15"
    by arith
  then show ?thesis
    by (auto simp: hextable_def hex_digit_def digit_value_def)
qed

lemma byte_nibbles:
  fixes v :: byte
  shows "unat (drop_bit 4 v) < 16" and "unat (v AND 0x0f) < 16"
    and "unat (drop_bit 4 v) * 16 + unat (v AND 0x0f) = unat v"
proof -
  have hi: "unat (drop_bit 4 v) = unat v div 16"
    by (simp add: drop_bit_eq_div unat_div)
  have "v AND 0x0f = take_bit 4 v"
    by (simp add: take_bit_eq_mask mask_eq_exp_minus_1)
  then have lo: "unat (v AND 0x0f) = unat v mod 16"
    by (simp add: take_bit_eq_mod unat_mod)
  have "unat v < 256"
    using unsigned_less [of v, where ?'a = nat] by simp
  then show "unat (drop_bit 4 v) < 16" by (simp add: hi)
  show "unat (v AND 0x0f) < 16" by (simp add: lo)
  show "unat (drop_bit 4 v) * 16 + unat (v AND 0x0f) = unat v"
    by (simp add: hi lo)
qed

lemma EncodeToString_length: "length (EncodeToString src) = 2 * length src"
  by (induction src) (simp_all add: EncodeToString_def)

lemma EncodeToString_hex: "list_all hex_digit (EncodeToString src)"
  by (induction src) (simp_all add: EncodeToString_def hextable_digit byte_nibbles)

lemma EncodeToString_Cons:
  "EncodeToString (v # src) =
     [hextable ! unat (drop_bit 4 v), hextable ! unat (v AND 0x0f)] @ EncodeToString src"
  by (simp add: EncodeToString_def)

lemma EncodeToString_value:
  "foldl (\<lambda>z ch. z * 16 + digit_value ch) z (EncodeToString src) =
   foldl (\<lambda>z b. z * 256 + unat b) z src"
proof (induction src arbitrary: z)
  case Nil
  then show ?case by (simp add: EncodeToString_def)
next
  case (Cons v src)
  have "foldl (\<lambda>z ch. z * 16 + digit_value ch) z
          [hextable ! unat (drop_bit 4 v), hextable ! unat (v AND 0x0f)] =
        (z * 16 + unat (drop_bit 4 v)) * 16 + unat (v AND 0x0f)"
    by (simp add: hextable_digit byte_nibbles(1,2))
  also have "\<dots> = z * 256 + unat v"
    using byte_nibbles(3) [of v] by arith
  finally show ?case
    using Cons [of "z * 256 + unat v"] by (simp only: EncodeToString_Cons foldl_append foldl.simps)
qed

lemma nat_bytes_value: "foldl (\<lambda>z b. z * 256 + unat b) 0 (nat_bytes n) = n"
proof (induction n rule: nat_bytes.induct)
  case (1 n)
  show ?case
  proof (cases "n = 0")
    case True
    then show ?thesis by simp
  next
    case False
    have "unat (of_nat (n mod 256) :: byte) = n mod 256"
      by (simp add: unat_of_nat)
    with False 1 show ?thesis
      by (subst nat_bytes.simps) simp
  qed
qed

lemma nat_bytes_empty: "nat_bytes n = [] \<longleftrightarrow> n = 0"
  by (subst nat_bytes.simps) simp

lemma SetString_EncodeToString_Int_Bytes:
  "x \<noteq> 0 \<Longrightarrow> SetString (EncodeToString (Int_Bytes x)) 16 = Some \<bar>x\<bar>"
proof -
  assume "x \<noteq> 0"
  then have "Int_Bytes x \<noteq> []"
    by (simp add: Int_Bytes_def nat_bytes_empty)
  then have "EncodeToString (Int_Bytes x) \<noteq> []"
    using EncodeToString_length [of "Int_Bytes x"] by auto
  then have "SetString (EncodeToString (Int_Bytes x)) 16 =
      Some (int (hex_value (EncodeToString (Int_Bytes x))))"
    by (simp add: SetString_hex EncodeToString_hex)
  then show ?thesis
    by (simp add: hex_value_def EncodeToString_value Int_Bytes_def nat_bytes_value)
qed

section \<open>The signature string of the providers\<close>

text \<open>
  When \<open>r\<close> and \<open>s\<close> fill the same number of bytes, the string that \<open>signData\<close> and
  \<open>SignIdentity\<close> write is cut between them, and \<open>VerifyIdentityWithEntry\<close> hands
  \<open>ecdsa.Verify\<close> the pair that was signed.
\<close>

lemma sign_then_verify_equal_widths:
  assumes "0 < r" and "0 < s" and "length (Int_Bytes r) = length (Int_Bytes s)"
  shows "PublicKeyIdentityProvider_VerifyIdentityWithEntry E identity data
           (EncodeToString (Int_Bytes r) @ EncodeToString (Int_Bytes s)) =
         (ecdsa_Verify E (ids_PublicKey identity) (sha256_Sum256 E data) r s, None)"
proof -
  let ?a = "EncodeToString (Int_Bytes r)" and ?b = "EncodeToString (Int_Bytes s)"
  from assms(3) have "length (?a @ ?b) div 2 = length ?a"
    by (simp add: EncodeToString_length)
  then have "take (length (?a @ ?b) div 2) (?a @ ?b) = ?a"
    and "drop (length (?a @ ?b) div 2) (?a @ ?b) = ?b"
    by simp_all
  with assms(1,2) show ?thesis
    by (simp add: PublicKeyIdentityProvider_VerifyIdentityWithEntry_def
          SetString_EncodeToString_Int_Bytes)
qed


text \<open>
  C2. The claim: \<open>r\<close> and \<open>s\<close> are each written at the fixed width of the curve and
  the string is cut at that width, so that signing and then verifying succeeds also
  when \<open>r\<close> or \<open>s\<close> is short. The code at a signature whose \<open>s\<close> has 31 bytes: whatever
  the library functions are, when \<open>ecdsa.Sign\<close> returns \<open>(r_full, s_short)\<close> both
  \<open>signData\<close> and \<open>SignIdentity\<close> write the 126 digits \<open>sig_short\<close>, and
  \<open>VerifyIdentityWithEntry\<close> cuts them after digit 63 and hands \<open>ecdsa.Verify\<close> another
  pair: \<open>r\<close> without its last digit, and \<open>s\<close> with that digit in front. A verifier that
  accepts the pair that was signed, and no other, rejects the string.
\<close>

theorem sign_then_verify_short_s:
  "(let E' = E\<lparr>ecdsa_Sign := \<lambda>rnd priv hash. (Inr (r_full, s_short), rnd)\<rparr> in
      fst (signData E' rnd privateKey data) = Inr sig_short \<and>
      fst (PublicKeyIdentityProvider_SignIdentity E' rnd msg identity) = Inr sig_short \<and>
      PublicKeyIdentityProvider_VerifyIdentityWithEntry E' identity data sig_short =
        (ecdsa_Verify E (ids_PublicKey identity) (sha256_Sum256 E data)
           (r_full div 16) (11 * 16 ^ 62 + s_short), None)) \<and>
   length sig_short = 126 \<and>
   r_full div 16 \<noteq> r_full \<and> 11 * 16 ^ 62 + s_short \<noteq> s_short \<and>
   PublicKeyIdentityProvider_VerifyIdentityWithEntry
     (E\<lparr>ecdsa_Verify := \<lambda>pub hash r s. r = r_full \<and> s = s_short\<rparr>) identity data sig_short =
     (False, None)"
proof -
  have "r_full div 16 \<noteq> r_full" and "11 * 16 ^ 62 + s_short \<noteq> s_short"
    by (simp_all add: r_full_def)
  then show ?thesis
    by (simp add: signData_def PublicKeyIdentityProvider_SignIdentity_def
          PublicKeyIdentityProvider_VerifyIdentityWithEntry_def sig_short_encoding
          sig_short_length sig_short_halves)
qed

text \<open>
  C6. For every identity, message and signature string, \<open>VerifyIdentityWithEntry\<close>
  returns \<open>(false, nil)\<close> when the signature is well formed and \<open>ecdsa.Verify\<close> rejects
  the pair it stands for, and it returns an error only when the signature is not well
  formed.
\<close>

theorem VerifyIdentityWithEntry_false_without_error:
  "(wellformed_signature signature \<and>
    \<not> ecdsa_Verify E (ids_PublicKey identity) (sha256_Sum256 E data)
        (signature_r signature) (signature_s signature) \<longrightarrow>
      PublicKeyIdentityProvider_VerifyIdentityWithEntry E identity data signature = (False, None)) \<and>
   (snd (PublicKeyIdentityProvider_VerifyIdentityWithEntry E identity data signature) \<noteq> None \<longrightarrow>
      \<not> wellformed_signature signature)"
proof (cases "wellformed_signature signature")
  case True
  then show ?thesis
    by (simp add: PublicKeyIdentityProvider_VerifyIdentityWithEntry_def wellformed_halves)
next
  case False
  then show ?thesis by simp
qed

text \<open>
  The theorem at two signatures for the bytes of \<open>entry0\<close>: \<open>30a5\<close> is well formed and
  not valid (the entry's signature is \<open>30a4\<close>), \<open>30zz\<close> is not well formed.
\<close>

theorem VerifyIdentityWithEntry_false_without_error_witness:
  "wellformed_signature ''30a5'' \<and>
   \<not> ecdsa_Verify env0 (ids_PublicKey alice0) (sha256_Sum256 env0 (Bytes entry0))
       (signature_r ''30a5'') (signature_s ''30a5'') \<and>
   PublicKeyIdentityProvider_VerifyIdentityWithEntry env0 alice0 (Bytes entry0) ''30a5'' =
     (False, None) \<and>
   snd (PublicKeyIdentityProvider_VerifyIdentityWithEntry env0 alice0 (Bytes entry0) ''30zz'') \<noteq> None \<and>
   \<not> wellformed_signature ''30zz''"
proof -
  have wf: "wellformed_signature ''30a5''"
    by (simp add: wellformed_signature_def hex_digit_def)
  have bad: "\<not> ecdsa_Verify env0 (ids_PublicKey alice0) (sha256_Sum256 env0 (Bytes entry0))
       (signature_r ''30a5'') (signature_s ''30a5'')"
    by (simp add: signature_r_def signature_s_def hex_value_def entry0_def go_defs env0_defs)
  have err: "snd (PublicKeyIdentityProvider_VerifyIdentityWithEntry env0 alice0 (Bytes entry0) ''30zz'') \<noteq> None"
    by (simp add: PublicKeyIdentityProvider_VerifyIdentityWithEntry_def go_defs)
  from wf bad err
    VerifyIdentityWithEntry_false_without_error [of "''30a5''" env0 alice0 "Bytes entry0"]
    VerifyIdentityWithEntry_false_without_error [of "''30zz''" env0 alice0 "Bytes entry0"]
  show ?thesis by blast
qed

section \<open>Verifying the signature of an entry\<close>

text \<open>
  C7. For every identity whose type is not registered and every encoded entry,
  \<open>VerifyEntrySignature\<close> returns false. (The function returns on that branch before
  it calls anything else; no call of it panics there.)
\<close>

theorem VerifyEntrySignature_unregistered:
  "registry (ids_Type identity) = None \<Longrightarrow> VerifyEntrySignature registry identity entry = False"
  by (simp add: VerifyEntrySignature_def GetIdentityProvider_def)

text \<open>The theorem at \<open>alice0\<close> with the type \<open>orbitdb\<close>, which \<open>registry0\<close> does not hold.\<close>

theorem VerifyEntrySignature_unregistered_witness:
  "registry0 (ids_Type (alice0\<lparr>ids_Type := ''orbitdb''\<rparr>)) = None \<and>
   VerifyEntrySignature registry0 (alice0\<lparr>ids_Type := ''orbitdb''\<rparr>) entry0 = False"
proof -
  have "registry0 (ids_Type (alice0\<lparr>ids_Type := ''orbitdb''\<rparr>)) = None"
    by (simp add: registry0_def)
  with VerifyEntrySignature_unregistered [of registry0 "alice0\<lparr>ids_Type := ''orbitdb''\<rparr>" entry0]
  show ?thesis by simp
qed

section \<open>Encoding and building entries\<close>






text \<open>
  C4, as the code has it. The signing functions of the providers return the error of
  \<open>ecdsa.Sign\<close> as an error value. \<open>Encode\<close> and \<open>NewEntry\<close> have no error result; a
  failure inside them is a panic. \<open>Encode\<close> panics exactly when loading the schema,
  the DAG-CBOR encoding or the hashing returns an error, and \<open>NewEntry\<close> panics
  exactly when \<open>Encode\<close> panics or the identity's \<open>Sign\<close> returns an error.
\<close>

theorem Encode_NewEntry_panic:
  "(fst (signData E rnd privateKey data) = Inl err \<longleftrightarrow>
      fst (ecdsa_Sign E rnd privateKey (sha256_Sum256 E data)) = Inl err) \<and>
   (fst (PublicKeyIdentityProvider_SignIdentity E rnd msg identity) = Inl err \<longleftrightarrow>
      fst (ecdsa_Sign E rnd (ids_PrivateKey identity) (sha256_Sum256 E (bytes_of msg))) = Inl err) \<and>
   (Encode E entry = Panic err \<longleftrightarrow>
      LoadSchemaBytes E = Some err \<or>
      LoadSchemaBytes E = None \<and>
        (dagcbor_Encode E entry = Inl err \<or>
         (\<exists>buf. dagcbor_Encode E entry = Inr buf \<and> mh_Sum E buf = Inl err))) \<and>
   (fst (NewEntry E rnd identity id' payload clock) = Panic err \<longleftrightarrow>
      (let entry' = \<lparr>ID = id', Payload = payload, Next = [], Refs = [], Clock = clock, V = 2,
                      Key = PublicKeyHex E identity, Identity = ids_Identity identity,
                      Signature = []\<rparr>
       in Encode E entry' = Panic err \<or>
          (\<exists>ee. Encode E entry' = Return ee \<and>
             fst (identities_Sign E rnd identity (Bytes ee)) = Inl err)))"
proof -
  have "fst (signData E rnd privateKey data) = Inl err \<longleftrightarrow>
      fst (ecdsa_Sign E rnd privateKey (sha256_Sum256 E data)) = Inl err"
    by (auto simp: signData_def Let_def split: prod.splits sum.splits)
  moreover have "fst (PublicKeyIdentityProvider_SignIdentity E rnd msg identity) = Inl err \<longleftrightarrow>
      fst (ecdsa_Sign E rnd (ids_PrivateKey identity) (sha256_Sum256 E (bytes_of msg))) = Inl err"
    by (auto simp: PublicKeyIdentityProvider_SignIdentity_def Let_def split: prod.splits sum.splits)
  moreover have "Encode E entry = Panic err \<longleftrightarrow>
      LoadSchemaBytes E = Some err \<or>
      LoadSchemaBytes E = None \<and>
        (dagcbor_Encode E entry = Inl err \<or>
         (\<exists>buf. dagcbor_Encode E entry = Inr buf \<and> mh_Sum E buf = Inl err))"
    by (auto simp: Encode_def split: option.splits sum.splits)
  moreover have "fst (NewEntry E rnd identity id' payload clock) = Panic err \<longleftrightarrow>
      (let entry' = \<lparr>ID = id', Payload = payload, Next = [], Refs = [], Clock = clock, V = 2,
                      Key = PublicKeyHex E identity, Identity = ids_Identity identity,
                      Signature = []\<rparr>
       in Encode E entry' = Panic err \<or>
          (\<exists>ee. Encode E entry' = Return ee \<and>
             fst (identities_Sign E rnd identity (Bytes ee)) = Inl err))"
    by (auto simp: NewEntry_def Let_def split: result.splits prod.splits sum.splits)
  ultimately show ?thesis
    by blast
qed

text \<open>
  C4, as the claim states it, fails: for an identity whose private key is the zero
  value, signing returns an error in \<open>env0\<close> and \<open>NewEntry\<close> panics with it.
\<close>

theorem NewEntry_panic_counterexample:
  "fst (NewEntry env0 0 alice0_public ''entry1'' ''hello'' clock0) = Panic ''invalid private key''"
  by (simp add: NewEntry_def Encode_def Entry.extend_def go_defs env0_defs cong: let_weak_cong)

section \<open>Verifying the signature of an entry, continued\<close>

text \<open>
  C3, as the code has it. \<open>VerifyEntrySignature\<close> hands the provider the bytes stored
  in the encoded entry and the stored signature; it does not encode the entry again.
  Its result is the same after any change of the other fields, \<open>Payload\<close>, \<open>Key\<close> and
  \<open>Clock\<close> among them.
\<close>

theorem VerifyEntrySignature_reads_stored_bytes:
  "VerifyEntrySignature registry identity
     (entry\<lparr>ID := id', Payload := payload, Next := next', Refs := refs, Clock := clock,
            V := v, Key := key, Identity := hash, CID := cid\<rparr>) =
   VerifyEntrySignature registry identity entry"
  by (simp add: VerifyEntrySignature_def split: sum.splits)

text \<open>
  C3, as the claim states it, fails: \<open>entry0\<close> verifies in \<open>env0\<close>, and it still
  verifies after a byte of its payload, of its key or of its clock time has changed.
\<close>

theorem VerifyEntrySignature_tamper_counterexample:
  "VerifyEntrySignature registry0 alice0 entry0 = True \<and>
   VerifyEntrySignature registry0 alice0 (entry0\<lparr>Payload := ''jello''\<rparr>) = True \<and>
   VerifyEntrySignature registry0 alice0 (entry0\<lparr>Key := ''3d64''\<rparr>) = True \<and>
   VerifyEntrySignature registry0 alice0
     (entry0\<lparr>Clock := \<lparr>clock_id = ''alice'', clock_time = 257\<rparr>\<rparr>) = True"
  by (simp add: VerifyEntrySignature_def GetIdentityProvider_def registry0_def
        NewPublicKeyIdentityProvider_def PublicKeyIdentityProvider_VerifyIdentityWithEntry_def
        entry0_def go_defs env0_defs cong: let_weak_cong)

lemma VerifyEntrySignature_bytes_example:
  "VerifyEntrySignature registry0 alice0 (entry0\<lparr>Bytes := (Bytes entry0)[12 := 112]\<rparr>) = False"
  by (simp add: VerifyEntrySignature_def GetIdentityProvider_def registry0_def
        NewPublicKeyIdentityProvider_def PublicKeyIdentityProvider_VerifyIdentityWithEntry_def
        entry0_def go_defs env0_defs cong: let_weak_cong)

section \<open>Identities\<close>

lemma signData_Inr:
  "fst (signData E rnd privateKey data) = Inr signature \<longleftrightarrow>
     (\<exists>r s. fst (ecdsa_Sign E rnd privateKey (sha256_Sum256 E data)) = Inr (r, s) \<and>
        signature = EncodeToString (Int_Bytes r) @ EncodeToString (Int_Bytes s))"
  by (auto simp: signData_def Let_def split: prod.splits sum.splits)

text \<open>
  What \<open>CreateIdentity\<close> returns: the id, the hex public key of the hard-coded key
  pair, that key pair, and the two self-signatures, \<open>signData\<close> over the bytes of the id
  and over the bytes of the hex public key.
\<close>

lemma CreateIdentity_Inr:
  assumes "fst (PublicKeyProvider_CreateIdentity E rnd id') = Inr identity"
  shows "it_ID identity = id'"
    and "it_PublicKey identity =
           EncodeToString (Int_Bytes (X (createHardcodedKeyPair E)) @
                           Int_Bytes (Y (createHardcodedKeyPair E)))"
    and "it_PrivateKey identity = Some (createHardcodedKeyPair E)"
    and "it_Type identity = ''publickey''"
    and "\<exists>rnd1. it_Signatures identity ''id'' =
           Some (projr (fst (signData E rnd (createHardcodedKeyPair E) (bytes_of id')))) \<and>
         rnd1 = snd (signData E rnd (createHardcodedKeyPair E) (bytes_of id')) \<and>
         it_Signatures identity ''publicKey'' =
           Some (projr (fst (signData E rnd1 (createHardcodedKeyPair E)
                               (bytes_of (it_PublicKey identity)))))"
  using assms
  by (auto simp: PublicKeyProvider_CreateIdentity_def PublicKeyProvider_Type_def Let_def
        split: prod.splits sum.splits)

text \<open>
  \<open>VerifyIdentity\<close> returns true exactly when \<open>IsIdentity\<close> holds and the identity's
  \<open>Verify\<close> accepts the signature stored under \<open>id\<close> for the id and the one stored
  under \<open>publicKey\<close> for the hex public key; with every error it returns false.
\<close>

lemma VerifyIdentity_True:
  "fst (PublicKeyProvider_VerifyIdentity E identity) \<longleftrightarrow>
     IsIdentity E identity \<and>
     (\<exists>idSignature publicKeySignature.
        it_Signatures identity ''id'' = Some idSignature \<and>
        it_Signatures identity ''publicKey'' = Some publicKeySignature \<and>
        identitytypes_Verify E identity idSignature (bytes_of (it_ID identity)) \<and>
        identitytypes_Verify E identity publicKeySignature (bytes_of (it_PublicKey identity)))"
  by (auto simp: PublicKeyProvider_VerifyIdentity_def PublicKeyProvider_Verify_def
        split: option.splits)

lemma VerifyIdentity_error_False:
  "snd (PublicKeyProvider_VerifyIdentity E identity) = Some err \<Longrightarrow>
     \<not> fst (PublicKeyProvider_VerifyIdentity E identity)"
  by (auto simp: PublicKeyProvider_VerifyIdentity_def split: option.splits if_splits)

lemma createHardcodedKeyPair_D:
  "D (createHardcodedKeyPair E) = 0x5e5d9e0a44685aee2282a44d2d3e9a1b"
  by (simp add: createHardcodedKeyPair_def hardcoded_scalar split: prod.splits)

lemma createHardcodedKeyPair_env0:
  "createHardcodedKeyPair env0 =
     \<lparr>Curve = P256, X = 95, Y = 242, D = 0x5e5d9e0a44685aee2282a44d2d3e9a1b\<rparr>"
  by (simp add: createHardcodedKeyPair_def go_defs env0_defs cong: let_weak_cong)

lemma hex_public_key_env0: "EncodeToString (Int_Bytes 95 @ Int_Bytes 242) = ''5ff2''"
  by (simp add: go_defs)

lemma signData_env0:
  "signData env0 0 \<lparr>Curve = P256, X = 95, Y = 242, D = 0x5e5d9e0a44685aee2282a44d2d3e9a1b\<rparr>
     (bytes_of ''alice'') = (Inr ''3027'', Suc 0)"
  "signData env0 (Suc 0) \<lparr>Curve = P256, X = 95, Y = 242, D = 0x5e5d9e0a44685aee2282a44d2d3e9a1b\<rparr>
     (bytes_of ''5ff2'') = (Inr ''334f'', 2)"
  "signData env0 7 \<lparr>Curve = P256, X = 95, Y = 242, D = 0x5e5d9e0a44685aee2282a44d2d3e9a1b\<rparr>
     (bytes_of ''bob'') = (Inr ''450c'', 8)"
  "signData env0 8 \<lparr>Curve = P256, X = 95, Y = 242, D = 0x5e5d9e0a44685aee2282a44d2d3e9a1b\<rparr>
     (bytes_of ''5ff2'') = (Inr ''4856'', 9)"
  by (simp_all add: signData_def go_defs env0_defs cong: let_weak_cong)

lemma EncodeIdentity_env0:
  "EncodeIdentity0 (created_alice0\<lparr>it_Hash := [], it_Bytes := []\<rparr>) =
     Inr (it_Hash created_alice0, it_Bytes created_alice0)"
  "EncodeIdentity0 (created_bob0\<lparr>it_Hash := [], it_Bytes := []\<rparr>) =
     Inr (it_Hash created_bob0, it_Bytes created_bob0)"
  by (simp_all add: created_alice0_def created_bob0_def go_defs env0_defs cong: let_weak_cong)

lemma CreateIdentity_alice:
  "PublicKeyProvider_CreateIdentity env0 0 ''alice'' = (Inr created_alice0, 2)"
  using EncodeIdentity_env0(1)
  by (simp add: PublicKeyProvider_CreateIdentity_def createHardcodedKeyPair_env0
        hex_public_key_env0 signData_env0 PublicKeyProvider_Type_def created_alice0_def Let_def)

lemma CreateIdentity_bob:
  "PublicKeyProvider_CreateIdentity env0 7 ''bob'' = (Inr created_bob0, 9)"
  using EncodeIdentity_env0(2)
  by (simp add: PublicKeyProvider_CreateIdentity_def createHardcodedKeyPair_env0
        hex_public_key_env0 signData_env0 PublicKeyProvider_Type_def created_bob0_def Let_def)

lemma VerifyIdentity_created_alice0:
  "PublicKeyProvider_VerifyIdentity env0 created_alice0 = (True, None)"
  by (simp add: PublicKeyProvider_VerifyIdentity_def PublicKeyProvider_Verify_def
        created_alice0_def go_defs env0_defs cong: let_weak_cong)

lemma VerifyIdentity_zero_Identity:
  "PublicKeyProvider_VerifyIdentity env0 zero_Identity =
     (False, Some ''identity is missing required fields'')"
  by (simp add: PublicKeyProvider_VerifyIdentity_def zero_Identity_def IsIdentity0_def)

text \<open>
  C10. Any two identities that \<open>CreateIdentity\<close> of the public-key provider returns,
  for any ids and any states of the random reader, carry the same hex public key and
  the same private key, whose scalar is the hard-coded one.
\<close>

theorem CreateIdentity_same_key:
  assumes "fst (PublicKeyProvider_CreateIdentity E rnd1 id1) = Inr identity1"
    and "fst (PublicKeyProvider_CreateIdentity E rnd2 id2) = Inr identity2"
  shows "it_PublicKey identity1 = it_PublicKey identity2 \<and>
         it_PrivateKey identity1 = it_PrivateKey identity2 \<and>
         map_option D (it_PrivateKey identity1) = Some 0x5e5d9e0a44685aee2282a44d2d3e9a1b"
  using CreateIdentity_Inr(2,3) [OF assms(1)] CreateIdentity_Inr(2,3) [OF assms(2)]
  by (simp add: createHardcodedKeyPair_D)

text \<open>The theorem for \<open>alice\<close> and \<open>bob\<close> in \<open>env0\<close>.\<close>

theorem CreateIdentity_same_key_witness:
  "fst (PublicKeyProvider_CreateIdentity env0 0 ''alice'') = Inr created_alice0 \<and>
   fst (PublicKeyProvider_CreateIdentity env0 7 ''bob'') = Inr created_bob0 \<and>
   it_PublicKey created_alice0 = it_PublicKey created_bob0 \<and>
   it_PrivateKey created_alice0 = it_PrivateKey created_bob0 \<and>
   map_option D (it_PrivateKey created_alice0) = Some 0x5e5d9e0a44685aee2282a44d2d3e9a1b"
proof -
  have a: "fst (PublicKeyProvider_CreateIdentity env0 0 ''alice'') = Inr created_alice0"
    by (simp add: CreateIdentity_alice)
  have b: "fst (PublicKeyProvider_CreateIdentity env0 7 ''bob'') = Inr created_bob0"
    by (simp add: CreateIdentity_bob)
  from a b CreateIdentity_same_key [OF a b] show ?thesis
    by blast
qed

section \<open>The Identities manager\<close>

lemma Identities_VerifyIdentity_flag:
  "Identities_VerifyIdentity ids identity = fst (Provider_VerifyIdentity (provider ids) identity)"
  by (simp add: Identities_VerifyIdentity_def split: prod.splits)

lemma NewIdentities_init:
  "NewIdentities (init_registry E) providerType = Inr ids \<longleftrightarrow>
     providerType = ''publickey'' \<and> ids = \<lparr>storage = Map.empty, provider = NewPublicKeyProvider E\<rparr>"
  by (auto simp: NewIdentities_def GetProvider_def init_registry_def RegisterProvider_def
        NewPublicKeyProvider_def PublicKeyProvider_Type_def split: option.splits if_splits)

text \<open>
  C8, as the code has it. \<open>VerifyIdentity\<close> of the manager returns the boolean that
  \<open>VerifyIdentity\<close> of the bound provider returns and drops the error, whatever the
  provider is. For a manager that \<open>NewIdentities\<close> builds from the registry as \<open>init\<close>
  leaves it, whose provider returns false with each of its errors, this is false
  whenever the provider returns an error and the provider's boolean otherwise.
\<close>

theorem Identities_VerifyIdentity_returns_flag:
  "Identities_VerifyIdentity ids identity =
     fst (Provider_VerifyIdentity (provider ids) identity) \<and>
   (NewIdentities (init_registry E) providerType = Inr ids' \<longrightarrow>
      Identities_VerifyIdentity ids' identity' =
        (case Provider_VerifyIdentity (provider ids') identity' of
           (verified, Some err) \<Rightarrow> False
         | (verified, None) \<Rightarrow> verified))"
proof (intro conjI impI)
  show "Identities_VerifyIdentity ids identity =
      fst (Provider_VerifyIdentity (provider ids) identity)"
    by (rule Identities_VerifyIdentity_flag)
next
  assume "NewIdentities (init_registry E) providerType = Inr ids'"
  then have "Provider_VerifyIdentity (provider ids') = PublicKeyProvider_VerifyIdentity E"
    by (simp add: NewIdentities_init NewPublicKeyProvider_def)
  then show "Identities_VerifyIdentity ids' identity' =
      (case Provider_VerifyIdentity (provider ids') identity' of
         (verified, Some err) \<Rightarrow> False
       | (verified, None) \<Rightarrow> verified)"
    using VerifyIdentity_error_False [of E identity']
    by (auto simp: Identities_VerifyIdentity_flag split: prod.splits option.splits)
qed

text \<open>
  The theorem for the manager of type \<open>publickey\<close> in \<open>env0\<close>, at the zero identity
  (the provider returns an error) and at \<open>created_alice0\<close> (it returns true).
\<close>

theorem Identities_VerifyIdentity_returns_flag_witness:
  "NewIdentities (init_registry env0) ''publickey'' =
     Inr \<lparr>storage = Map.empty, provider = NewPublicKeyProvider env0\<rparr> \<and>
   Provider_VerifyIdentity (NewPublicKeyProvider env0) zero_Identity =
     (False, Some ''identity is missing required fields'') \<and>
   Identities_VerifyIdentity \<lparr>storage = Map.empty, provider = NewPublicKeyProvider env0\<rparr>
     zero_Identity = False \<and>
   Identities_VerifyIdentity \<lparr>storage = Map.empty, provider = NewPublicKeyProvider env0\<rparr>
     created_alice0 = True"
proof -
  let ?ids = "\<lparr>storage = Map.empty, provider = NewPublicKeyProvider env0\<rparr>"
  have a: "NewIdentities (init_registry env0) ''publickey'' = Inr ?ids"
    by (simp add: NewIdentities_init)
  have b: "Provider_VerifyIdentity (provider ?ids) zero_Identity =
      (False, Some ''identity is missing required fields'')"
    by (simp add: NewPublicKeyProvider_def VerifyIdentity_zero_Identity)
  have c: "Provider_VerifyIdentity (provider ?ids) created_alice0 = (True, None)"
    by (simp add: NewPublicKeyProvider_def VerifyIdentity_created_alice0)
  from Identities_VerifyIdentity_returns_flag
         [of ?ids zero_Identity env0 "''publickey''" ?ids zero_Identity]
    Identities_VerifyIdentity_returns_flag
         [of ?ids created_alice0 env0 "''publickey''" ?ids created_alice0] a b c
  show ?thesis by simp
qed

lemma custom_Provider0_simps:
  "Provider_Type custom_Provider0 = ''custom''"
  "Provider_VerifyIdentity custom_Provider0 identity =
     (True, Some ''revocation list not reachable'')"
  by (simp_all add: custom_Provider0_def)

text \<open>
  C8, as the claim states it, fails: once \<open>custom_Provider0\<close> is registered beside the
  public-key provider, \<open>NewIdentities\<close> builds a manager bound to it; its
  \<open>VerifyIdentity\<close> returns true with an error, and the manager returns true.
\<close>

theorem Identities_VerifyIdentity_counterexample:
  "NewIdentities (RegisterProvider (init_registry env0) custom_Provider0) ''custom'' =
     Inr \<lparr>storage = Map.empty, provider = custom_Provider0\<rparr> \<and>
   Provider_VerifyIdentity custom_Provider0 zero_Identity =
     (True, Some ''revocation list not reachable'') \<and>
   Identities_VerifyIdentity \<lparr>storage = Map.empty, provider = custom_Provider0\<rparr>
     zero_Identity = True"
  by (simp add: NewIdentities_def GetProvider_def RegisterProvider_def
        Identities_VerifyIdentity_def custom_Provider0_simps)

end
